theory Spec2Isabelle
  imports Complex_Main "HOL-Library.Multiset"
begin

section \<open>JavaScript numbers\<close>

text \<open>
  The analytics code computes with JavaScript numbers. A number is modelled as a finite
  value, one of the two infinities, or NaN. Finite values are exact reals: the rounding,
  overflow and underflow of IEEE doubles and the sign of zero are not modelled, and a zero
  divisor counts as positive zero. What is modelled is what the claims on division by zero
  depend on: \<open>x / 0\<close> is \<open>Infinity\<close>, \<open>-Infinity\<close> or \<open>NaN\<close>, these values travel
  through arithmetic, and every comparison with \<open>NaN\<close> is false.
\<close>

datatype jsnum = Fin real | PInf | NInf | NaN


fun js_neg :: "jsnum \<Rightarrow> jsnum" where
  "js_neg (Fin x) = Fin (- x)"
| "js_neg PInf = NInf"
| "js_neg NInf = PInf"
| "js_neg NaN = NaN"

fun js_add :: "jsnum \<Rightarrow> jsnum \<Rightarrow> jsnum" where
  "js_add (Fin a) (Fin b) = Fin (a + b)"
| "js_add NaN y = NaN"
| "js_add x NaN = NaN"
| "js_add PInf NInf = NaN"
| "js_add NInf PInf = NaN"
| "js_add PInf y = PInf"
| "js_add x PInf = PInf"
| "js_add NInf y = NInf"
| "js_add x NInf = NInf"

definition js_sub :: "jsnum \<Rightarrow> jsnum \<Rightarrow> jsnum" where
  "js_sub x y = js_add x (js_neg y)"

text \<open>An infinity times or over a finite value takes the sign of the finite value.\<close>

definition signed_inf :: "bool \<Rightarrow> jsnum" where
  "signed_inf positive = (if positive then PInf else NInf)"

fun js_mul :: "jsnum \<Rightarrow> jsnum \<Rightarrow> jsnum" where
  "js_mul (Fin a) (Fin b) = Fin (a * b)"
| "js_mul NaN y = NaN"
| "js_mul x NaN = NaN"
| "js_mul PInf (Fin b) = (if b = 0 then NaN else signed_inf (0 < b))"
| "js_mul NInf (Fin b) = (if b = 0 then NaN else signed_inf (b < 0))"
| "js_mul (Fin a) PInf = (if a = 0 then NaN else signed_inf (0 < a))"
| "js_mul (Fin a) NInf = (if a = 0 then NaN else signed_inf (a < 0))"
| "js_mul PInf PInf = PInf"
| "js_mul NInf NInf = PInf"
| "js_mul PInf NInf = NInf"
| "js_mul NInf PInf = NInf"

fun js_div :: "jsnum \<Rightarrow> jsnum \<Rightarrow> jsnum" where
  "js_div (Fin a) (Fin b) =
     (if b \<noteq> 0 then Fin (a / b)
      else if a = 0 then NaN
      else signed_inf (0 < a))"
| "js_div NaN y = NaN"
| "js_div x NaN = NaN"
| "js_div (Fin a) PInf = Fin 0"
| "js_div (Fin a) NInf = Fin 0"
| "js_div PInf (Fin b) = signed_inf (0 \<le> b)"
| "js_div NInf (Fin b) = signed_inf (b < 0)"
| "js_div PInf PInf = NaN"
| "js_div PInf NInf = NaN"
| "js_div NInf PInf = NaN"
| "js_div NInf NInf = NaN"

text \<open>\<open>x > y\<close>; \<open>x < y\<close> is \<open>js_gt y x\<close>.\<close>

fun js_gt :: "jsnum \<Rightarrow> jsnum \<Rightarrow> bool" where
  "js_gt (Fin a) (Fin b) = (b < a)"
| "js_gt NaN y = False"
| "js_gt x NaN = False"
| "js_gt PInf PInf = False"
| "js_gt PInf y = True"
| "js_gt x PInf = False"
| "js_gt NInf y = False"
| "js_gt (Fin a) NInf = True"

definition js_lt :: "jsnum \<Rightarrow> jsnum \<Rightarrow> bool" where
  "js_lt x y = js_gt y x"

text \<open>\<open>Math.sqrt(x)\<close> and \<open>Math.pow(x, 2)\<close>.\<close>

fun js_sqrt :: "jsnum \<Rightarrow> jsnum" where
  "js_sqrt (Fin x) = (if x < 0 then NaN else Fin (sqrt x))"
| "js_sqrt PInf = PInf"
| "js_sqrt NInf = NaN"
| "js_sqrt NaN = NaN"

definition js_pow2 :: "jsnum \<Rightarrow> jsnum" where
  "js_pow2 x = js_mul x x"

text \<open>\<open>Math.min(a, b)\<close> and \<open>Math.max(a, b)\<close>: NaN if either argument is NaN.\<close>

fun js_min :: "jsnum \<Rightarrow> jsnum \<Rightarrow> jsnum" where
  "js_min NaN y = NaN"
| "js_min x NaN = NaN"
| "js_min x y = (if js_gt x y then y else x)"

fun js_max :: "jsnum \<Rightarrow> jsnum \<Rightarrow> jsnum" where
  "js_max NaN y = NaN"
| "js_max x NaN = NaN"
| "js_max x y = (if js_gt y x then y else x)"

text \<open>
  \<open>parseFloat(x.toFixed(2))\<close>. \<open>toFixed(2)\<close> prints the integer \<open>n\<close> with \<open>n / 100\<close>
  nearest to the magnitude of \<open>x\<close>, the larger one on a tie, with the sign of \<open>x\<close>; from
  \<open>10^21\<close> on it prints the number itself, as it does for \<open>NaN\<close> and the infinities, and
  \<open>parseFloat\<close> reads each of them back.
\<close>

definition round2 :: "real \<Rightarrow> real" where
  "round2 x =
     (if 10 ^ 21 \<le> \<bar>x\<bar> then x
      else sgn x * real_of_int \<lfloor>\<bar>x\<bar> * 100 + 1 / 2\<rfloor> / 100)"

fun toFixed2 :: "jsnum \<Rightarrow> jsnum" where
  "toFixed2 (Fin x) = Fin (round2 x)"
| "toFixed2 PInf = PInf"
| "toFixed2 NInf = NInf"
| "toFixed2 NaN = NaN"

text \<open>
  \<open>xs.slice(start, end)\<close> and \<open>xs.slice(start)\<close>: a negative index counts from the end,
  and both are clamped to the array.
\<close>

definition rel_index :: "nat \<Rightarrow> int \<Rightarrow> nat" where
  "rel_index len k = (if k < 0 then nat (max (int len + k) 0) else min (nat k) len)"

definition slice :: "int \<Rightarrow> int \<Rightarrow> 'a list \<Rightarrow> 'a list" where
  "slice start end xs =
     (let from = rel_index (length xs) start; to = rel_index (length xs) end
      in take (to - from) (drop from xs))"

definition slice_from :: "int \<Rightarrow> 'a list \<Rightarrow> 'a list" where
  "slice_from start xs = drop (rel_index (length xs) start) xs"

section \<open>Anomaly detection service\<close>

text \<open>
  A daily cost record. The total is a finite number (the data model's decimal); the
  per-provider breakdown is carried along unchanged and is not part of the model.
\<close>

record daily_cost =
  day_id :: string
  day_date :: string
  total :: real

text \<open>\<open>xs.reduce((sum, d) => sum + d.total, 0)\<close>\<close>

definition sum_total :: "daily_cost list \<Rightarrow> jsnum" where
  "sum_total xs = foldl (\<lambda>sum d. js_add sum (Fin (total d))) (Fin 0) xs"

subsection \<open>calculateStatistics\<close>

record statistics =
  mean :: jsnum
  stdDev :: jsnum
  min_value :: jsnum
  max_value :: jsnum

definition calculateStatistics :: "real list \<Rightarrow> statistics" where
  "calculateStatistics values =
     (let n = length values in
      if n = 0 then \<lparr>mean = Fin 0, stdDev = Fin 0, min_value = Fin 0, max_value = Fin 0\<rparr>
      else
        let mean = js_div (foldl (\<lambda>sum v. js_add sum (Fin v)) (Fin 0) values) (Fin (real n));
            variance =
              js_div (foldl (\<lambda>sum v. js_add sum (js_pow2 (js_sub (Fin v) mean))) (Fin 0) values)
                (Fin (real n));
            stdDev = js_sqrt variance;
            min = foldl (\<lambda>m v. js_min m (Fin v)) PInf values;
            max = foldl (\<lambda>m v. js_max m (Fin v)) NInf values
        in \<lparr>mean = mean, stdDev = stdDev, min_value = min, max_value = max\<rparr>)"

subsection \<open>calculateMovingAverage\<close>

record moving_average =
  ma_date :: string
  actual :: real
  movingAverage :: jsnum
  deviation :: jsnum
  deviationPercent :: jsnum

text \<open>The body of the loop for index \<open>i\<close>, \<open>i < dailyCosts.length\<close>.\<close>

definition movingAverageAt :: "daily_cost list \<Rightarrow> int \<Rightarrow> nat \<Rightarrow> moving_average" where
  "movingAverageAt dailyCosts windowSize i =
     (let start = max 0 (int i - windowSize + 1);
          window = slice start (int i + 1) dailyCosts;
          avg = js_div (sum_total window) (Fin (real (length window)));
          t = total (dailyCosts ! i)
      in \<lparr>ma_date = day_date (dailyCosts ! i),
          actual = t,
          movingAverage = toFixed2 avg,
          deviation = toFixed2 (js_sub (Fin t) avg),
          deviationPercent = toFixed2 (js_mul (js_div (js_sub (Fin t) avg) avg) (Fin 100))\<rparr>)"

definition calculateMovingAverage :: "daily_cost list \<Rightarrow> int \<Rightarrow> moving_average list" where
  "calculateMovingAverage dailyCosts windowSize =
     foldl (\<lambda>movingAverages i. movingAverages @ [movingAverageAt dailyCosts windowSize i])
       [] [0 ..< length dailyCosts]"

subsection \<open>detectAnomalies and calculateHealthScore\<close>

datatype severity = Error | Warning

record anomaly_record =
  an_id :: string
  an_date :: string
  actualCost :: real
  expectedCost :: jsnum
  an_threshold :: jsnum
  zScore :: jsnum
  an_deviationPercent :: jsnum
  an_severity :: severity

record anomaly_statistics =
  st_mean :: jsnum
  st_stdDev :: jsnum
  st_min :: jsnum
  st_max :: jsnum
  st_threshold :: jsnum
  st_warningThreshold :: jsnum

record anomaly_result =
  ar_period :: int
  stats :: anomaly_statistics
  anomalies :: "anomaly_record list"
  warnings :: "anomaly_record list"
  totalAnomalies :: nat
  totalWarnings :: nat
  healthScore :: int

definition calculateHealthScore :: "nat \<Rightarrow> nat \<Rightarrow> int \<Rightarrow> int" where
  "calculateHealthScore anomalyCount warningCount period =
     (let anomalyPenalty = int anomalyCount * 15;
          warningPenalty = int warningCount * 5
      in max 0 (100 - anomalyPenalty - warningPenalty))"

text \<open>
  The callback of \<open>recentCosts.forEach\<close>: the state is the pair of the two arrays the
  source pushes to. The message and recommendation strings are not modelled.
\<close>

definition anomalyStep ::
  "statistics \<Rightarrow> jsnum \<Rightarrow> jsnum \<Rightarrow> anomaly_record list \<times> anomaly_record list \<Rightarrow> daily_cost
    \<Rightarrow> anomaly_record list \<times> anomaly_record list" where
  "anomalyStep s threshold warningThreshold acc day =
     (let zScore = js_div (js_sub (Fin (total day)) (mean s)) (stdDev s);
          deviationPercent =
            js_mul (js_div (js_sub (Fin (total day)) (mean s)) (mean s)) (Fin 100)
      in if js_gt (Fin (total day)) threshold then
           (fst acc @
              [\<lparr>an_id = ''anomaly-'' @ day_id day, an_date = day_date day,
                actualCost = total day, expectedCost = toFixed2 (mean s),
                an_threshold = toFixed2 threshold, zScore = toFixed2 zScore,
                an_deviationPercent = toFixed2 deviationPercent, an_severity = Error\<rparr>],
            snd acc)
         else if js_gt (Fin (total day)) warningThreshold then
           (fst acc,
            snd acc @
              [\<lparr>an_id = ''warning-'' @ day_id day, an_date = day_date day,
                actualCost = total day, expectedCost = toFixed2 (mean s),
                an_threshold = toFixed2 warningThreshold, zScore = toFixed2 zScore,
                an_deviationPercent = toFixed2 deviationPercent, an_severity = Warning\<rparr>])
         else acc)"

definition detectAnomalies :: "daily_cost list \<Rightarrow> int \<Rightarrow> anomaly_result" where
  "detectAnomalies dailyCosts period =
     (let recentCosts = slice_from (- period) dailyCosts;
          values = map total recentCosts;
          s = calculateStatistics values;
          threshold = js_add (mean s) (js_mul (Fin 2) (stdDev s));
          warningThreshold = js_add (mean s) (js_mul (Fin 1.5) (stdDev s));
          found = foldl (anomalyStep s threshold warningThreshold) ([], []) recentCosts
      in \<lparr>ar_period = period,
          stats =
            \<lparr>st_mean = toFixed2 (mean s), st_stdDev = toFixed2 (stdDev s),
             st_min = toFixed2 (min_value s), st_max = toFixed2 (max_value s),
             st_threshold = toFixed2 threshold,
             st_warningThreshold = toFixed2 warningThreshold\<rparr>,
          anomalies = fst found,
          warnings = snd found,
          totalAnomalies = length (fst found),
          totalWarnings = length (snd found),
          healthScore = calculateHealthScore (length (fst found)) (length (snd found)) period\<rparr>)"

subsection \<open>detectCostSpikes\<close>

datatype spike_severity = Critical | High | Medium

record spike_record =
  sp_id :: string
  sp_date :: string
  sp_currentCost :: jsnum
  sp_averageCost :: jsnum
  sp_increasePercent :: jsnum
  sp_severity :: spike_severity

record spike_result =
  sr_lookbackDays :: nat
  sr_spikes :: "spike_record list"
  totalSpikes :: nat
  criticalSpikes :: nat
  highSpikes :: nat
  mediumSpikes :: nat

text \<open>
  The body of the loop for index \<open>i\<close>, \<open>lookbackDays \<le> i < dailyCosts.length\<close>. The
  look-back is a count of days; with a negative one the source reads \<open>dailyCosts[i]\<close> at
  a negative index and raises, which the type excludes. The message, the breakdown and
  the recommendation text are not modelled.
\<close>

definition spikeStep :: "daily_cost list \<Rightarrow> nat \<Rightarrow> spike_record list \<Rightarrow> nat \<Rightarrow> spike_record list" where
  "spikeStep dailyCosts lookbackDays spikes i =
     (let historicalWindow = slice (int i - int lookbackDays) (int i) dailyCosts;
          historicalAvg = js_div (sum_total historicalWindow) (Fin (real lookbackDays));
          currentCost = Fin (total (dailyCosts ! i));
          increasePercent =
            js_mul (js_div (js_sub currentCost historicalAvg) historicalAvg) (Fin 100)
      in if js_gt increasePercent (Fin 50) then
           spikes @
             [\<lparr>sp_id = ''spike-'' @ day_id (dailyCosts ! i),
               sp_date = day_date (dailyCosts ! i),
               sp_currentCost = toFixed2 currentCost,
               sp_averageCost = toFixed2 historicalAvg,
               sp_increasePercent = toFixed2 increasePercent,
               sp_severity =
                 (if js_gt increasePercent (Fin 100) then Critical
                  else if js_gt increasePercent (Fin 75) then High else Medium)\<rparr>]
         else spikes)"

definition detectCostSpikes :: "daily_cost list \<Rightarrow> nat \<Rightarrow> spike_result" where
  "detectCostSpikes dailyCosts lookbackDays =
     (let spikes =
            foldl (spikeStep dailyCosts lookbackDays) [] [lookbackDays ..< length dailyCosts]
      in \<lparr>sr_lookbackDays = lookbackDays,
          sr_spikes = spikes,
          totalSpikes = length spikes,
          criticalSpikes = length (filter (\<lambda>s. sp_severity s = Critical) spikes),
          highSpikes = length (filter (\<lambda>s. sp_severity s = High) spikes),
          mediumSpikes = length (filter (\<lambda>s. sp_severity s = Medium) spikes)\<rparr>)"

section \<open>Analytics engine\<close>

text \<open>A point of a cost history: \<open>{date, cost}\<close>.\<close>

record cost_point =
  cp_date :: string
  cp_cost :: real

text \<open>\<open>xs.reduce((a, b) => a + b.cost, 0)\<close>\<close>

definition sum_cost :: "cost_point list \<Rightarrow> jsnum" where
  "sum_cost xs = foldl (\<lambda>a b. js_add a (Fin (cp_cost b))) (Fin 0) xs"

subsection \<open>analyzeCostTrends\<close>

datatype trend = insufficient_data | stable | increasing | decreasing

record trend_result =
  tr_trend :: trend
  averageDaily :: jsnum
  projectedMonthly :: jsnum
  tr_slope :: "jsnum option"
  anomaly :: bool
  anomalyThreshold :: "jsnum option"
  standardDeviation :: "jsnum option"


subsection \<open>identifyOptimizationOpportunities\<close>

record service_cost =
  service :: string
  sc_total :: real
  data :: "cost_point list"

text \<open>
  A resource, as the schema has it: the utilisation object and each of its percentages
  may be missing, the cost is required.
\<close>

record utilization =
  cpu :: "real option"
  memory :: "real option"

record resource =
  resourceName :: "string option"
  resourceId :: string
  resourceType :: string
  res_utilization :: "utilization option"
  cost :: real

text \<open>\<open>x || 0\<close> on an optional number: a missing value and zero both give zero.\<close>

definition or_zero :: "real option \<Rightarrow> real" where
  "or_zero x = (case x of None \<Rightarrow> 0 | Some v \<Rightarrow> v)"

text \<open>\<open>resource.resourceName || resource.resourceId\<close>: an empty name is falsy too.\<close>

definition name_or_id :: "resource \<Rightarrow> string" where
  "name_or_id r =
     (case resourceName r of None \<Rightarrow> resourceId r
      | Some nm \<Rightarrow> if nm = [] then resourceId r else nm)"

datatype priority = PriorityHigh | PriorityMedium | PriorityLow

datatype opportunity_type =
  high_spend_service | rapid_growth | underutilized_resource | idle_resource

text \<open>
  An opportunity. \<open>opp_subject\<close> is the \<open>service\<close> or the \<open>resource\<close> field, \<open>opp_metric\<close>
  the \<open>percentage\<close> or the \<open>growth\<close>; the fields an object does not have are \<open>None\<close>. The
  recommendation text and the resource type are not modelled.
\<close>

record opportunity =
  opp_type :: opportunity_type
  opp_subject :: string
  opp_cost :: real
  opp_metric :: "jsnum option"
  opp_cpu :: "real option"
  opp_memory :: "real option"
  opp_priority :: priority
  potentialSavings :: real

text \<open>The callback of \<open>serviceCosts.forEach\<close>.\<close>

definition serviceStep :: "service_cost list \<Rightarrow> opportunity list \<Rightarrow> service_cost \<Rightarrow> opportunity list" where
  "serviceStep serviceCosts opportunities svc =
     (let percentage =
            js_mul
              (js_div (Fin (sc_total svc))
                 (foldl (\<lambda>a b. js_add a (Fin (sc_total b))) (Fin 0) serviceCosts))
              (Fin 100);
          opportunities1 =
            (if js_gt percentage (Fin 30) then
               opportunities @
                 [\<lparr>opp_type = high_spend_service, opp_subject = service svc,
                   opp_cost = sc_total svc, opp_metric = Some percentage, opp_cpu = None,
                   opp_memory = None, opp_priority = PriorityHigh,
                   potentialSavings = sc_total svc * 0.15\<rparr>]
             else opportunities)
      in if length (data svc) \<ge> 7 then
           let recentWeek = sum_cost (slice_from (- 7) (data svc));
               previousWeek = sum_cost (slice 0 (- 7) (data svc));
               growth =
                 (if js_gt previousWeek (Fin 0)
                  then js_mul (js_div (js_sub recentWeek previousWeek) previousWeek) (Fin 100)
                  else Fin 0)
           in if js_gt growth (Fin 20) then
                opportunities1 @
                  [\<lparr>opp_type = rapid_growth, opp_subject = service svc,
                    opp_cost = sc_total svc, opp_metric = Some growth, opp_cpu = None,
                    opp_memory = None, opp_priority = PriorityMedium,
                    potentialSavings = sc_total svc * 0.10\<rparr>]
              else opportunities1
         else opportunities1)"

text \<open>The callback of \<open>resources.forEach\<close>.\<close>

definition resourceStep :: "opportunity list \<Rightarrow> resource \<Rightarrow> opportunity list" where
  "resourceStep opportunities r =
     (case res_utilization r of
        None \<Rightarrow> opportunities
      | Some u \<Rightarrow>
          let c = or_zero (cpu u);
              m = or_zero (memory u);
              opportunities1 =
                (if c < 20 \<and> m < 20 then
                   opportunities @
                     [\<lparr>opp_type = underutilized_resource, opp_subject = name_or_id r,
                       opp_cost = cost r, opp_metric = None, opp_cpu = Some c,
                       opp_memory = Some m,
                       opp_priority = (if c < 10 then PriorityHigh else PriorityMedium),
                       potentialSavings = cost r * 0.40\<rparr>]
                 else opportunities)
          in if c < 5 \<and> m < 5 then
               opportunities1 @
                 [\<lparr>opp_type = idle_resource, opp_subject = name_or_id r,
                   opp_cost = cost r, opp_metric = None, opp_cpu = Some c,
                   opp_memory = Some m, opp_priority = PriorityHigh,
                   potentialSavings = cost r\<rparr>]
             else opportunities1)"

text \<open>
  \<open>opportunities.sort((a, b) => b.potentialSavings - a.potentialSavings)\<close>: the sort of
  an array is stable, and so is \<open>sort_key\<close>.
\<close>

definition identifyOptimizationOpportunities ::
  "service_cost list \<Rightarrow> resource list \<Rightarrow> opportunity list" where
  "identifyOptimizationOpportunities serviceCosts resources =
     (let opportunities1 = foldl (serviceStep serviceCosts) [] serviceCosts;
          opportunities2 = foldl resourceStep opportunities1 resources
      in sort_key (\<lambda>opp. - potentialSavings opp) opportunities2)"

subsection \<open>forecastCosts of the analytics engine\<close>

datatype confidence_label = confidence_low | confidence_medium | confidence_high

text \<open>A forecast point; its date is the number of days after today.\<close>

record forecast_point =
  fp_days_ahead :: nat
  predicted :: jsnum
  low :: jsnum
  high :: jsnum

record forecast_result =
  fr_forecast :: "forecast_point list"
  fr_confidence :: confidence_label
  fr_averageDaily :: "jsnum option"
  fr_trend :: "trend option"
  fr_projectedMonthly :: "jsnum option"

text \<open>The body of the loop for \<open>i\<close>, \<open>1 \<le> i \<le> days\<close>.\<close>

definition forecastStep :: "jsnum \<Rightarrow> jsnum \<Rightarrow> nat \<Rightarrow> forecast_point list \<Rightarrow> nat \<Rightarrow> forecast_point list" where
  "forecastStep averageRecent trend days forecast i =
     (let dampenedTrend = js_mul trend (Fin 0.5);
          predicted =
            js_mul averageRecent
              (js_add (Fin 1) (js_mul dampenedTrend (js_div (Fin (real i)) (Fin (real days)))))
      in forecast @
           [\<lparr>fp_days_ahead = i, predicted = toFixed2 predicted,
             low = toFixed2 (js_mul predicted (Fin 0.9)),
             high = toFixed2 (js_mul predicted (Fin 1.1))\<rparr>])"

definition AnalyticsEngine_forecastCosts :: "cost_point list option \<Rightarrow> nat \<Rightarrow> forecast_result" where
  "AnalyticsEngine_forecastCosts historicalData days =
     (case historicalData of
        None \<Rightarrow>
          \<lparr>fr_forecast = [], fr_confidence = confidence_low, fr_averageDaily = None,
           fr_trend = None, fr_projectedMonthly = None\<rparr>
      | Some h \<Rightarrow>
          if length h < 14 then
            \<lparr>fr_forecast = [], fr_confidence = confidence_low, fr_averageDaily = None,
             fr_trend = None, fr_projectedMonthly = None\<rparr>
          else
            let windowSize = 7;
                recentData = slice_from (- windowSize) h;
                averageRecent = js_div (sum_cost recentData) (Fin (real (length recentData)));
                olderData = slice (- 14) (- 7) h;
                averageOlder = js_div (sum_cost olderData) (Fin (real (length olderData)));
                trend = js_div (js_sub averageRecent averageOlder) averageOlder;
                forecast = foldl (forecastStep averageRecent trend days) [] [1 ..< days + 1]
            in \<lparr>fr_forecast = forecast,
                fr_confidence = (if length h \<ge> 30 then confidence_high else confidence_medium),
                fr_averageDaily = Some averageRecent,
                fr_trend =
                  Some (if js_gt trend (Fin 0.05) then increasing
                        else if js_lt trend (Fin (- 0.05)) then decreasing else stable),
                fr_projectedMonthly = Some (toFixed2 (js_mul averageRecent (Fin 30)))\<rparr>)"

section \<open>AI insights engine\<close>

datatype category = rightsizing | idle_resources

datatype action = Downsize | Terminate | Stop

text \<open>
  A recommendation: \<open>rec_cpu\<close>, \<open>rec_memory\<close>, \<open>rec_cost\<close> and \<open>suggestedAction\<close> are the
  \<open>details\<close> object. The title and the description are not modelled.
\<close>

record recommendation =
  rec_category :: category
  rec_priority :: priority
  rec_cpu :: real
  rec_memory :: real
  rec_cost :: real
  suggestedAction :: action
  estimatedSavings :: jsnum
  savingsPercentage :: nat
  implementationEffort :: priority
  aiConfidence :: jsnum
  rec_resourceId :: string



text \<open>The callback of \<open>resources.forEach\<close> in \<open>generateIdleResourceRecommendations\<close>.\<close>

definition idleStep :: "recommendation list \<Rightarrow> resource \<Rightarrow> recommendation list" where
  "idleStep recommendations r =
     (case res_utilization r of
        None \<Rightarrow> recommendations
      | Some u \<Rightarrow>
          let c = or_zero (cpu u);
              m = or_zero (memory u)
          in if c < 5 \<and> m < 5 then
               recommendations @
                 [\<lparr>rec_category = idle_resources,
                   rec_priority = PriorityHigh,
                   rec_cpu = c, rec_memory = m, rec_cost = cost r,
                   suggestedAction = (if c < 2 then Terminate else Stop),
                   estimatedSavings = toFixed2 (Fin (cost r)),
                   savingsPercentage = 100,
                   implementationEffort = PriorityLow,
                   aiConfidence = Fin 85,
                   rec_resourceId = resourceId r\<rparr>]
             else recommendations)"

definition generateIdleResourceRecommendations :: "resource list \<Rightarrow> recommendation list" where
  "generateIdleResourceRecommendations resources = foldl idleStep [] resources"

section \<open>Cost analytics service\<close>

subsection \<open>forecastCosts of the cost analytics service\<close>

record trend_forecast_point =
  tf_days_ahead :: nat
  tf_predicted :: jsnum
  lowerBound :: jsnum
  upperBound :: jsnum
  tf_confidence :: jsnum

record trend_forecast =
  tf_period :: nat
  basedOnPeriod :: int
  tf_forecast :: "trend_forecast_point list"
  totalForecast :: jsnum
  avgDailyForecast :: jsnum
  tf_trend :: trend

text \<open>The body of the loop for \<open>i\<close>, \<open>1 \<le> i \<le> days\<close>.\<close>

definition trendForecastStep ::
  "jsnum \<Rightarrow> jsnum \<Rightarrow> nat \<Rightarrow> trend_forecast_point list \<Rightarrow> nat \<Rightarrow> trend_forecast_point list" where
  "trendForecastStep intercept slope n forecast i =
     (let predicted = js_add intercept (js_mul slope (Fin (real n + real i)));
          confidence = js_max (Fin 0.7) (js_sub (Fin 1) (js_mul (Fin (real i)) (Fin 0.05)))
      in forecast @
           [\<lparr>tf_days_ahead = i, tf_predicted = toFixed2 predicted,
             lowerBound = toFixed2 (js_mul predicted (Fin 0.9)),
             upperBound = toFixed2 (js_mul predicted (Fin 1.1)),
             tf_confidence = toFixed2 confidence\<rparr>])"

text \<open>
  The source takes the daily trend from \<open>getCostOverview(period)\<close>, which draws it at
  random; here it is the first argument.
\<close>

definition CostAnalyticsService_forecastCosts ::
  "daily_cost list \<Rightarrow> nat \<Rightarrow> int \<Rightarrow> trend_forecast" where
  "CostAnalyticsService_forecastCosts dailyTrend days period =
     (let n = real (length dailyTrend);
          sumX = Fin (n * (n - 1) / 2);
          sumY = sum_total dailyTrend;
          sumXY =
            foldl (\<lambda>sum (d, i). js_add sum (js_mul (Fin (real i)) (Fin (total d))))
              (Fin 0) (zip dailyTrend [0 ..< length dailyTrend]);
          sumX2 = Fin (n * (n - 1) * (2 * n - 1) / 6);
          slope =
            js_div (js_sub (js_mul (Fin n) sumXY) (js_mul sumX sumY))
              (js_sub (js_mul (Fin n) sumX2) (js_mul sumX sumX));
          intercept = js_div (js_sub sumY (js_mul slope sumX)) (Fin n);
          forecast =
            foldl (trendForecastStep intercept slope (length dailyTrend)) [] [1 ..< days + 1];
          sumPredicted = foldl (\<lambda>sum f. js_add sum (tf_predicted f)) (Fin 0) forecast
      in \<lparr>tf_period = days,
          basedOnPeriod = period,
          tf_forecast = forecast,
          totalForecast = toFixed2 sumPredicted,
          avgDailyForecast = toFixed2 (js_div sumPredicted (Fin (real days))),
          tf_trend =
            (if js_gt slope (Fin 0) then increasing
             else if js_lt slope (Fin 0) then decreasing else stable)\<rparr>)"

section \<open>Notions used in the statements\<close>

text \<open>The mean and the population variance of a list of reals.\<close>

definition avg_of :: "real list \<Rightarrow> real" where
  "avg_of vs = sum_list vs / real (length vs)"

definition var_of :: "real list \<Rightarrow> real" where
  "var_of vs = sum_list (map (\<lambda>v. (v - avg_of vs) * (v - avg_of vs)) vs) / real (length vs)"

text \<open>\<open>x\<close> is a finite number within \<open>tol\<close> of \<open>r\<close>.\<close>

definition close_to :: "real \<Rightarrow> jsnum \<Rightarrow> real \<Rightarrow> bool" where
  "close_to tol x r = (case x of Fin v \<Rightarrow> \<bar>v - r\<bar> \<le> tol | _ \<Rightarrow> False)"

text \<open>A day whose id and date are the same label.\<close>

definition day_at :: "string \<Rightarrow> real \<Rightarrow> daily_cost" where
  "day_at d t = \<lparr>day_id = d, day_date = d, total = t\<rparr>"

text \<open>The eight-day scenario, and its two thresholds \<open>mean + 2 * stdDev\<close> and \<open>mean + 1.5 * stdDev\<close>.\<close>

definition scenario_days :: "daily_cost list" where
  "scenario_days =
     [day_at ''day1'' 100, day_at ''day2'' 100, day_at ''day3'' 100, day_at ''day4'' 100,
      day_at ''day5'' 100, day_at ''day6'' 100, day_at ''day7'' 100, day_at ''day8'' 500]"

definition scenario_threshold :: real where
  "scenario_threshold = 150 + 2 * sqrt 17500"

definition scenario_warningThreshold :: real where
  "scenario_warningThreshold = 150 + 1.5 * sqrt 17500"

text \<open>
  The confidence the cost analytics service gives to the forecast of day \<open>i\<close>:
  \<open>max(0.7, 1 - i * 0.05)\<close>, to two decimals.
\<close>

definition trend_confidence :: "nat \<Rightarrow> real" where
  "trend_confidence i = round2 (max 0.7 (1 - real i * 0.05))"

text \<open>A resource with both utilisation percentages present.\<close>

definition spec_resource :: "real \<Rightarrow> real \<Rightarrow> real \<Rightarrow> resource" where
  "spec_resource c m k =
     \<lparr>resourceName = Some ''web-1'', resourceId = ''i-001'', resourceType = ''EC2'',
      res_utilization = Some \<lparr>cpu = Some c, memory = Some m\<rparr>, cost = k\<rparr>"



section \<open>Properties of the anomaly detection service\<close>

subsection \<open>Sums and statistics\<close>

lemma foldl_js_add_Fin:
  "foldl (\<lambda>sum v. js_add sum (Fin (f v))) (Fin a) xs = Fin (a + sum_list (map f xs))"
  by (induction xs arbitrary: a) (simp_all add: add.assoc)

lemma sum_total_Fin: "sum_total xs = Fin (sum_list (map total xs))"
  using foldl_js_add_Fin [of total 0 xs] by (simp add: sum_total_def)

lemma mean_calculateStatistics:
  assumes "vs \<noteq> []"
  shows "mean (calculateStatistics vs) = Fin (avg_of vs)"
  using assms foldl_js_add_Fin [of "\<lambda>v. v" 0 vs]
  by (simp add: calculateStatistics_def Let_def avg_of_def)

lemma stdDev_calculateStatistics:
  assumes "vs \<noteq> []"
  shows "stdDev (calculateStatistics vs) = Fin (sqrt (var_of vs))"
proof -
  have m: "js_div (foldl (\<lambda>sum v. js_add sum (Fin v)) (Fin 0) vs) (Fin (real (length vs)))
           = Fin (avg_of vs)"
    using assms foldl_js_add_Fin [of "\<lambda>v. v" 0 vs] by (simp add: avg_of_def)
  have sq: "(\<lambda>sum v. js_add sum (js_pow2 (js_sub (Fin v) (Fin (avg_of vs)))))
            = (\<lambda>sum v. js_add sum (Fin ((v - avg_of vs) * (v - avg_of vs))))"
    by (simp add: js_pow2_def js_sub_def)
  have nonneg: "0 \<le> var_of vs"
    unfolding var_of_def by (intro divide_nonneg_nonneg sum_list_nonneg) auto
  show ?thesis
    using assms nonneg
      foldl_js_add_Fin [of "\<lambda>v. (v - avg_of vs) * (v - avg_of vs)" 0 vs]
    by (simp add: calculateStatistics_def Let_def m sq var_of_def)
qed

lemma var_of_nonneg: "0 \<le> var_of vs"
  unfolding var_of_def by (intro divide_nonneg_nonneg sum_list_nonneg) auto


subsection \<open>Emitted anomaly records\<close>

lemma anomalyStep_quiet:
  assumes "\<not> js_gt (Fin (total d)) t" and "\<not> js_gt (Fin (total d)) w"
  shows "anomalyStep s t w acc d = acc"
  using assms by (simp add: anomalyStep_def Let_def)






subsection \<open>Constant series\<close>






subsection \<open>The eight-day scenario\<close>

lemma round2_eq:
  assumes "0 < x" and "x < 10 ^ 21"
    and "real_of_int n \<le> x * 100 + 1 / 2" and "x * 100 + 1 / 2 < real_of_int n + 1"
  shows "round2 x = real_of_int n / 100"
proof -
  have "\<lfloor>x * 100 + 1 / 2\<rfloor> = n"
    using assms(3,4) by (simp add: floor_eq_iff)
  then show ?thesis using assms(1,2) by (simp add: round2_def)
qed

lemma sqrt_17500_lower: "132.2875 \<le> sqrt 17500"
  by (rule real_le_rsqrt) (simp add: power2_eq_square)

lemma sqrt_17500_upper: "sqrt 17500 < 132.288"
  by (rule real_less_lsqrt) (simp_all add: power2_eq_square)

lemma scenario_recent: "slice_from (- 8) scenario_days = scenario_days"
  by (simp add: slice_from_def rel_index_def scenario_days_def)

lemma scenario_avg: "avg_of (map total scenario_days) = 150"
  by (simp add: avg_of_def scenario_days_def day_at_def)

lemma scenario_var: "var_of (map total scenario_days) = 17500"
  by (simp add: var_of_def scenario_avg) (simp add: scenario_days_def day_at_def)

lemma scenario_mean: "mean (calculateStatistics (map total scenario_days)) = Fin 150"
  using mean_calculateStatistics [of "map total scenario_days"]
  by (simp add: scenario_avg) (simp add: scenario_days_def)

lemma scenario_stdDev: "stdDev (calculateStatistics (map total scenario_days)) = Fin (sqrt 17500)"
  using stdDev_calculateStatistics [of "map total scenario_days"]
  by (simp add: scenario_var) (simp add: scenario_days_def)

lemma round2_150: "round2 150 = 150"
  using round2_eq [of 150 15000] by simp

lemma round2_sd: "round2 (sqrt 17500) = 132.29"
  using round2_eq [of "sqrt 17500" 13229] sqrt_17500_lower sqrt_17500_upper by simp

lemma round2_zScore: "round2 (350 / sqrt 17500) = 2.65"
proof -
  have pos: "0 < sqrt 17500" by simp
  have lo: "350 / sqrt 17500 \<le> 2.65"
    using sqrt_17500_lower pos by (simp add: divide_le_eq)
  have hi: "2.645 \<le> 350 / sqrt 17500"
    using sqrt_17500_upper pos by (simp add: le_divide_eq)
  show ?thesis
    using round2_eq [of "350 / sqrt 17500" 265] lo hi pos by simp
qed

lemma round2_deviationPercent: "round2 (700 / 3) = 233.33"
  using round2_eq [of "700 / 3" 23333] by simp

lemma scenario_min_max:
  "min_value (calculateStatistics (map total scenario_days)) = Fin 100"
  "max_value (calculateStatistics (map total scenario_days)) = Fin 500"
  by (simp_all add: calculateStatistics_def Let_def scenario_days_def day_at_def)

lemma round2_100: "round2 100 = 100"
  using round2_eq [of 100 10000] by simp

lemma round2_500: "round2 500 = 500"
  using round2_eq [of 500 50000] by simp

lemma scenario_thresholds:
  "js_add (mean (calculateStatistics (map total scenario_days)))
     (js_mul (Fin 2) (stdDev (calculateStatistics (map total scenario_days))))
   = Fin scenario_threshold"
  "js_add (mean (calculateStatistics (map total scenario_days)))
     (js_mul (Fin 1.5) (stdDev (calculateStatistics (map total scenario_days))))
   = Fin scenario_warningThreshold"
  by (simp_all add: scenario_mean scenario_stdDev scenario_threshold_def
      scenario_warningThreshold_def)

lemma round2_threshold: "round2 scenario_threshold = 414.58"
  using round2_eq [of "150 + 2 * sqrt 17500" 41458] sqrt_17500_lower sqrt_17500_upper
  by (simp add: scenario_threshold_def)

lemma scenario_fold_general:
  assumes m: "mean s = Fin 150" and sd: "stdDev s = Fin (sqrt 17500)"
  shows "foldl (anomalyStep s (Fin scenario_threshold) (Fin scenario_warningThreshold))
           ([], []) scenario_days
   = ([\<lparr>an_id = ''anomaly-day8'', an_date = ''day8'', actualCost = 500,
         expectedCost = Fin 150, an_threshold = Fin 414.58, zScore = Fin 2.65,
         an_deviationPercent = Fin 233.33, an_severity = Error\<rparr>], [])"
proof -
  have up: "scenario_threshold < 500"
    using sqrt_17500_upper by (simp add: scenario_threshold_def)
  have lo: "100 \<le> scenario_threshold" "100 \<le> scenario_warningThreshold"
    using sqrt_17500_lower by (simp_all add: scenario_threshold_def scenario_warningThreshold_def)
  have quiet: "anomalyStep s (Fin scenario_threshold) (Fin scenario_warningThreshold) acc
                 (day_at d 100) = acc" for acc d
    using lo by (intro anomalyStep_quiet) (simp_all add: day_at_def)
  have loud: "anomalyStep s (Fin scenario_threshold) (Fin scenario_warningThreshold) ([], [])
                (day_at ''day8'' 500)
     = ([\<lparr>an_id = ''anomaly-day8'', an_date = ''day8'', actualCost = 500,
         expectedCost = Fin 150, an_threshold = Fin 414.58, zScore = Fin 2.65,
         an_deviationPercent = Fin 233.33, an_severity = Error\<rparr>], [])"
    using up
    by (simp add: anomalyStep_def Let_def day_at_def m sd js_sub_def
        round2_150 round2_threshold round2_zScore round2_deviationPercent)
  show ?thesis
    by (simp add: scenario_days_def quiet loud)
qed

lemma scenario_fold:
  "foldl (anomalyStep (calculateStatistics (map total scenario_days))
            (Fin scenario_threshold) (Fin scenario_warningThreshold)) ([], []) scenario_days
   = ([\<lparr>an_id = ''anomaly-day8'', an_date = ''day8'', actualCost = 500,
         expectedCost = Fin 150, an_threshold = Fin 414.58, zScore = Fin 2.65,
         an_deviationPercent = Fin 233.33, an_severity = Error\<rparr>], [])"
  by (rule scenario_fold_general [OF scenario_mean scenario_stdDev])

lemma scenario_result:
  "detectAnomalies scenario_days 8 =
     \<lparr>ar_period = 8,
      stats =
        \<lparr>st_mean = Fin 150, st_stdDev = Fin 132.29, st_min = Fin 100, st_max = Fin 500,
         st_threshold = Fin 414.58,
         st_warningThreshold = toFixed2 (Fin scenario_warningThreshold)\<rparr>,
      anomalies =
        [\<lparr>an_id = ''anomaly-day8'', an_date = ''day8'', actualCost = 500,
          expectedCost = Fin 150, an_threshold = Fin 414.58, zScore = Fin 2.65,
          an_deviationPercent = Fin 233.33, an_severity = Error\<rparr>],
      warnings = [], totalAnomalies = 1, totalWarnings = 0, healthScore = 85\<rparr>"
  unfolding detectAnomalies_def Let_def scenario_recent scenario_thresholds scenario_fold
  by (simp add: scenario_mean scenario_stdDev scenario_min_max round2_150 round2_sd
      round2_threshold round2_100 round2_500 calculateHealthScore_def)

text \<open>
  Claim C4, as the code computes it. On the eight-day series 100, ..., 100, 500 with
  period 8, \<open>detectAnomalies\<close> reports mean 150, standard deviation 132.29 and error
  threshold 414.58, and flags day 8 (cost 500), and no other day, as an anomaly of severity
  error; there is no warning.
\<close>

theorem scenario_flags_day8:
  "st_mean (stats (detectAnomalies scenario_days 8)) = Fin 150 \<and>
   st_stdDev (stats (detectAnomalies scenario_days 8)) = Fin 132.29 \<and>
   st_threshold (stats (detectAnomalies scenario_days 8)) = Fin 414.58 \<and>
   map an_id (anomalies (detectAnomalies scenario_days 8)) = [''anomaly-day8''] \<and>
   map actualCost (anomalies (detectAnomalies scenario_days 8)) = [500] \<and>
   map an_severity (anomalies (detectAnomalies scenario_days 8)) = [Error] \<and>
   warnings (detectAnomalies scenario_days 8) = []"
  by (simp add: scenario_result)

text \<open>
  The figures of the claim are not the ones the code reports: the mean is 150, not about
  137.5, and the error threshold is 414.58, not about 402.7, even within a tolerance of 1.
\<close>

theorem scenario_figures_counterexample:
  "\<not> close_to 1 (st_mean (stats (detectAnomalies scenario_days 8))) 137.5 \<and>
   \<not> close_to 1 (st_threshold (stats (detectAnomalies scenario_days 8))) 402.7"
  by (simp add: scenario_result close_to_def)


subsection \<open>Division by a zero average\<close>

text \<open>
  Claim C1. \<open>detectCostSpikes\<close> has no guard for a trailing average of zero. After seven
  days of cost 0, a day of cost 100 gives \<open>(100 - 0) / 0 * 100 = Infinity\<close>, which is
  above 50: a spike record is emitted, and its \<open>increasePercent\<close> is \<open>Infinity\<close>.
\<close>

theorem spike_on_zero_average:
  "sr_spikes (detectCostSpikes (replicate 7 (day_at ''quiet'' 0) @ [day_at ''day8'' 100]) 7) =
     [\<lparr>sp_id = ''spike-day8'', sp_date = ''day8'', sp_currentCost = Fin 100,
       sp_averageCost = Fin 0, sp_increasePercent = PInf, sp_severity = Critical\<rparr>]"
  by (simp add: detectCostSpikes_def spikeStep_def Let_def slice_def rel_index_def
      sum_total_def day_at_def js_sub_def signed_inf_def upt_rec round2_def numeral_eq_Suc)

text \<open>
  The output has one record per input record, and the record at index \<open>i\<close> is computed
  from the window \<open>slice(max(0, i - windowSize + 1), i + 1)\<close>.
\<close>

lemma foldl_snoc_upt:
  "foldl (\<lambda>acc i. acc @ [f i]) acc0 xs = acc0 @ map f xs"
  by (induction xs arbitrary: acc0) simp_all

lemma calculateMovingAverage_map:
  "calculateMovingAverage dailyCosts windowSize =
     map (movingAverageAt dailyCosts windowSize) [0 ..< length dailyCosts]"
  by (simp add: calculateMovingAverage_def foldl_snoc_upt)

lemma length_calculateMovingAverage:
  "length (calculateMovingAverage dailyCosts windowSize) = length dailyCosts"
  by (simp add: calculateMovingAverage_map)

lemma nth_calculateMovingAverage:
  assumes "i < length dailyCosts"
  shows "calculateMovingAverage dailyCosts windowSize ! i = movingAverageAt dailyCosts windowSize i"
  using assms by (simp add: calculateMovingAverage_map)

text \<open>
  Claim C2. \<open>calculateMovingAverage\<close> has no guard for a moving average of zero. For the
  one-day series of cost 0 the moving average is 0 and the record's \<open>deviationPercent\<close>
  is \<open>(0 - 0) / 0 * 100 = NaN\<close>.
\<close>

theorem moving_average_zero_nan:
  "calculateMovingAverage [day_at ''day1'' 0] 7 =
     [\<lparr>ma_date = ''day1'', actual = 0, movingAverage = Fin 0, deviation = Fin 0,
       deviationPercent = NaN\<rparr>]"
  by (simp add: calculateMovingAverage_def movingAverageAt_def Let_def slice_def rel_index_def
      sum_total_def day_at_def js_sub_def round2_def)

section \<open>Properties of the two forecasts\<close>

text \<open>
  Claim C10. With fewer than 14 historical points, or with no history at all, the
  analytics engine's \<open>forecastCosts\<close> returns the sentinel: no forecast point and
  confidence low.
\<close>

theorem forecast_insufficient_history:
  assumes "case historicalData of None \<Rightarrow> True | Some h \<Rightarrow> length h < 14"
  shows "AnalyticsEngine_forecastCosts historicalData days =
           \<lparr>fr_forecast = [], fr_confidence = confidence_low, fr_averageDaily = None,
            fr_trend = None, fr_projectedMonthly = None\<rparr>"
  using assms by (cases historicalData) (simp_all add: AnalyticsEngine_forecastCosts_def)

theorem forecast_insufficient_history_witness:
  "length (replicate 13 \<lparr>cp_date = ''day'', cp_cost = 100\<rparr>) < 14 \<and>
   AnalyticsEngine_forecastCosts (Some (replicate 13 \<lparr>cp_date = ''day'', cp_cost = 100\<rparr>)) 30 =
     \<lparr>fr_forecast = [], fr_confidence = confidence_low, fr_averageDaily = None,
      fr_trend = None, fr_projectedMonthly = None\<rparr> \<and>
   AnalyticsEngine_forecastCosts None 30 =
     \<lparr>fr_forecast = [], fr_confidence = confidence_low, fr_averageDaily = None,
      fr_trend = None, fr_projectedMonthly = None\<rparr>"
  using forecast_insufficient_history [of "Some (replicate 13 \<lparr>cp_date = ''day'', cp_cost = 100\<rparr>)" 30]
    forecast_insufficient_history [of None 30]
  by simp

lemma confidence_trendForecastStep:
  "map tf_confidence (trendForecastStep intercept sl n acc i) =
     map tf_confidence acc @ [Fin (trend_confidence i)]"
  by (simp add: trendForecastStep_def Let_def js_sub_def trend_confidence_def max_def)

lemma confidence_foldl_trendForecastStep:
  "map tf_confidence (foldl (trendForecastStep intercept sl n) acc xs) =
     map tf_confidence acc @ map (\<lambda>i. Fin (trend_confidence i)) xs"
  by (induction xs arbitrary: acc) (simp_all add: confidence_trendForecastStep)

lemma confidence_forecast:
  "map tf_confidence (tf_forecast (CostAnalyticsService_forecastCosts dailyTrend days period)) =
     map (\<lambda>i. Fin (trend_confidence i)) [1 ..< days + 1]"
  by (simp add: CostAnalyticsService_forecastCosts_def Let_def
      confidence_foldl_trendForecastStep)

lemma length_forecast:
  "length (tf_forecast (CostAnalyticsService_forecastCosts dailyTrend days period)) = days"
  using arg_cong [OF confidence_forecast [of dailyTrend days period], of length] by simp

lemma nth_confidence_forecast:
  assumes "i < days"
  shows "tf_confidence (tf_forecast (CostAnalyticsService_forecastCosts dailyTrend days period) ! i)
         = Fin (trend_confidence (i + 1))"
proof -
  let ?f = "tf_forecast (CostAnalyticsService_forecastCosts dailyTrend days period)"
  have "tf_confidence (?f ! i) = map tf_confidence ?f ! i"
    using assms by (simp add: length_forecast)
  also have "\<dots> = map (\<lambda>i. Fin (trend_confidence i)) [1 ..< days + 1] ! i"
    by (simp only: confidence_forecast)
  also have "\<dots> = Fin (trend_confidence (i + 1))"
    using assms by (simp add: nth_map del: upt_Suc)
  finally show ?thesis .
qed

lemma round2_mono:
  assumes "0 < x" and "x \<le> y" and "y < 10 ^ 21"
  shows "round2 x \<le> round2 y"
proof -
  have "\<lfloor>x * 100 + 1 / 2\<rfloor> \<le> \<lfloor>y * 100 + 1 / 2\<rfloor>"
    using assms(2) by (intro floor_mono) simp
  then have "real_of_int \<lfloor>x * 100 + 1 / 2\<rfloor> \<le> real_of_int \<lfloor>y * 100 + 1 / 2\<rfloor>"
    by simp
  then show ?thesis using assms by (simp add: round2_def divide_right_mono)
qed

lemma trend_confidence_antimono:
  assumes "i \<le> j"
  shows "trend_confidence j \<le> trend_confidence i"
proof -
  have le: "max 0.7 (1 - real j * 0.05) \<le> max 0.7 (1 - real i * 0.05)"
    using assms by (simp add: max_def)
  have pos: "0 < max 0.7 (1 - real j * 0.05)" by (simp add: max_def)
  have "max 0.7 (1 - real i * 0.05) \<le> 1" by (simp add: max_def)
  then have small: "max 0.7 (1 - real i * 0.05) < 10 ^ 21" by simp
  show ?thesis
    unfolding trend_confidence_def by (rule round2_mono [OF pos le small])
qed

lemma forecastStep_length:
  "length (foldl (forecastStep averageRecent tr days) acc xs) = length acc + length xs"
  by (induction xs arbitrary: acc) (simp_all add: forecastStep_def Let_def)

lemma length_AnalyticsEngine_forecast:
  assumes "14 \<le> length h"
  shows "length (fr_forecast (AnalyticsEngine_forecastCosts (Some h) days)) = days"
  using assms by (simp add: AnalyticsEngine_forecastCosts_def Let_def forecastStep_length)

text \<open>
  Claim C7, as the code has it. The forecast of the cost analytics service has one point
  per future day, each with a confidence, and the confidence does not increase with the
  index. The forecast of the analytics engine has one point per future day when the
  history has at least 14 points; its points carry no confidence (the result has a single
  label).
\<close>

theorem forecast_confidence_non_increasing:
  "length (tf_forecast (CostAnalyticsService_forecastCosts dailyTrend days period)) = days \<and>
   (\<forall>i. i < days \<longrightarrow>
      tf_confidence (tf_forecast (CostAnalyticsService_forecastCosts dailyTrend days period) ! i) =
        Fin (round2 (max 0.7 (1 - real (i + 1) * 0.05)))) \<and>
   (\<forall>i j. i < j \<and> j < days \<longrightarrow>
      (\<exists>a b. tf_confidence (tf_forecast (CostAnalyticsService_forecastCosts dailyTrend days period) ! i) = Fin a \<and>
             tf_confidence (tf_forecast (CostAnalyticsService_forecastCosts dailyTrend days period) ! j) = Fin b \<and>
             b \<le> a)) \<and>
   (\<forall>h. 14 \<le> length h \<longrightarrow>
      length (fr_forecast (AnalyticsEngine_forecastCosts (Some h) days)) = days)"
proof (intro conjI allI impI)
  show "length (tf_forecast (CostAnalyticsService_forecastCosts dailyTrend days period)) = days"
    by (rule length_forecast)
next
  fix i
  assume "i < days"
  then show "tf_confidence (tf_forecast (CostAnalyticsService_forecastCosts dailyTrend days period) ! i) =
        Fin (round2 (max 0.7 (1 - real (i + 1) * 0.05)))"
    by (simp only: nth_confidence_forecast trend_confidence_def)
next
  fix i j
  assume ij: "i < j \<and> j < days"
  then have "trend_confidence (j + 1) \<le> trend_confidence (i + 1)"
    by (intro trend_confidence_antimono) simp
  then show "\<exists>a b. tf_confidence (tf_forecast (CostAnalyticsService_forecastCosts dailyTrend days period) ! i) = Fin a \<and>
             tf_confidence (tf_forecast (CostAnalyticsService_forecastCosts dailyTrend days period) ! j) = Fin b \<and>
             b \<le> a"
    using ij by (simp add: nth_confidence_forecast)
next
  fix h :: "cost_point list"
  assume "14 \<le> length h"
  then show "length (fr_forecast (AnalyticsEngine_forecastCosts (Some h) days)) = days"
    by (rule length_AnalyticsEngine_forecast)
qed

text \<open>A forecast of seven days: the first and the last confidence, and both lengths.\<close>

theorem forecast_confidence_non_increasing_witness:
  "length (tf_forecast (CostAnalyticsService_forecastCosts [] 7 30)) = 7 \<and>
   (\<exists>a b. tf_confidence (tf_forecast (CostAnalyticsService_forecastCosts [] 7 30) ! 0) = Fin a \<and>
          tf_confidence (tf_forecast (CostAnalyticsService_forecastCosts [] 7 30) ! 6) = Fin b \<and>
          b \<le> a) \<and>
   length (fr_forecast (AnalyticsEngine_forecastCosts
      (Some (replicate 14 \<lparr>cp_date = ''day'', cp_cost = 100\<rparr>)) 7)) = 7"
proof -
  have ij: "(0::nat) < 6 \<and> (6::nat) < 7" by simp
  have h: "14 \<le> length (replicate 14 \<lparr>cp_date = ''day'', cp_cost = 100\<rparr>)" by simp
  show ?thesis
    using ij h forecast_confidence_non_increasing [of "[]" 7 30] by blast
qed

text \<open>
  With 13 historical points the analytics engine returns no forecast point for the 30
  days asked for.
\<close>

theorem forecast_points_counterexample:
  "fr_forecast (AnalyticsEngine_forecastCosts
      (Some (replicate 13 \<lparr>cp_date = ''day'', cp_cost = 100\<rparr>)) 30) = [] \<and>
   length (fr_forecast (AnalyticsEngine_forecastCosts
      (Some (replicate 13 \<lparr>cp_date = ''day'', cp_cost = 100\<rparr>)) 30)) \<noteq> 30"
  by (simp add: AnalyticsEngine_forecastCosts_def)

section \<open>Properties of the recommendation rules\<close>

text \<open>
  Each \<open>forEach\<close> callback appends to the array it is given, so a resource contributes
  the same records wherever it stands in the input.
\<close>

lemma foldl_append_step:
  assumes "\<And>acc x. step acc x = acc @ step [] x"
  shows "foldl step acc xs = acc @ concat (map (step []) xs)"
proof (induction xs arbitrary: acc)
  case Nil
  show ?case by simp
next
  case (Cons x xs)
  have "foldl step acc (x # xs) = foldl step (step acc x) xs" by simp
  also have "\<dots> = step acc x @ concat (map (step []) xs)" by (rule Cons.IH)
  also have "\<dots> = acc @ step [] x @ concat (map (step []) xs)"
    using assms [of acc x] by simp
  finally show ?case by simp
qed


lemma idleStep_append: "idleStep acc r = acc @ idleStep [] r"
  by (simp add: idleStep_def Let_def split: option.splits)

lemma resourceStep_append: "resourceStep acc r = acc @ resourceStep [] r"
  by (simp add: resourceStep_def Let_def split: option.splits)



lemma generateIdleResourceRecommendations_concat:
  "generateIdleResourceRecommendations rs = concat (map (idleStep []) rs)"
  using foldl_append_step [of idleStep "[]" rs, OF idleStep_append]
  by (simp add: generateIdleResourceRecommendations_def)

lemma generateIdleResourceRecommendations_split:
  "generateIdleResourceRecommendations (before @ r # after) =
     generateIdleResourceRecommendations before @ generateIdleResourceRecommendations [r] @
     generateIdleResourceRecommendations after"
  by (simp add: generateIdleResourceRecommendations_concat)

lemma identifyOptimizationOpportunities_mset:
  "mset (identifyOptimizationOpportunities svcs rs) =
     mset (foldl (serviceStep svcs) [] svcs) + mset (concat (map (resourceStep []) rs))"
  using foldl_append_step [of resourceStep "foldl (serviceStep svcs) [] svcs" rs,
      OF resourceStep_append]
  by (simp add: identifyOptimizationOpportunities_def Let_def)

lemma identifyOptimizationOpportunities_split:
  "mset (identifyOptimizationOpportunities svcs (before @ r # after)) =
     mset (identifyOptimizationOpportunities svcs (before @ after)) +
     mset (identifyOptimizationOpportunities [] [r])"
  by (simp add: identifyOptimizationOpportunities_mset)


lemma generateIdleResourceRecommendations_single:
  "generateIdleResourceRecommendations [r] = idleStep [] r"
  by (simp add: generateIdleResourceRecommendations_def)

lemma identifyOptimizationOpportunities_single:
  "identifyOptimizationOpportunities [] [r] =
     sort_key (\<lambda>opp. - potentialSavings opp) (resourceStep [] r)"
  by (simp add: identifyOptimizationOpportunities_def)

lemma round2_cents: "round2 (real_of_int k / 100) = real_of_int k / 100"
proof (cases "10 ^ 21 \<le> \<bar>real_of_int k / 100\<bar>")
  case True
  then show ?thesis by (simp add: round2_def)
next
  case False
  have "\<bar>real_of_int k / 100\<bar> * 100 + 1 / 2 = real_of_int \<bar>k\<bar> + 1 / 2"
    by simp
  then have "\<lfloor>\<bar>real_of_int k / 100\<bar> * 100 + 1 / 2\<rfloor> = \<bar>k\<bar>"
    by (simp add: floor_eq_iff)
  moreover have "sgn (real_of_int k / 100) * real_of_int \<bar>k\<bar> = real_of_int k"
    by (simp add: sgn_if)
  ultimately show ?thesis using False
    by (simp add: round2_def del: of_int_abs)
qed




text \<open>
  Claim C8, as the code has it. For a resource with utilisation data whose cpu and memory
  are both below 5, with a missing percentage read as 0: \<open>generateIdleResourceRecommendations\<close>
  emits one recommendation with priority high and estimated savings equal to the cost to
  two decimals, which is the cost itself when the cost is a whole number of cents;
  \<open>identifyOptimizationOpportunities\<close> emits one idle-resource opportunity with priority
  high and potential savings equal to the cost.
\<close>

theorem idle_rules:
  assumes "res_utilization r = Some u"
    and "or_zero (cpu u) < 5" and "or_zero (memory u) < 5"
  shows
    "generateIdleResourceRecommendations (before @ r # after) =
       generateIdleResourceRecommendations before @ generateIdleResourceRecommendations [r] @
       generateIdleResourceRecommendations after \<and>
     (\<exists>x. generateIdleResourceRecommendations [r] = [x] \<and>
        rec_category x = idle_resources \<and> rec_priority x = PriorityHigh \<and>
        savingsPercentage x = 100 \<and>
        estimatedSavings x = Fin (round2 (cost r)) \<and>
        (\<forall>k. cost r = real_of_int k / 100 \<longrightarrow> estimatedSavings x = Fin (cost r))) \<and>
     mset (identifyOptimizationOpportunities svcs (before @ r # after)) =
       mset (identifyOptimizationOpportunities svcs (before @ after)) +
       mset (identifyOptimizationOpportunities [] [r]) \<and>
     (\<exists>opp. filter (\<lambda>opp. opp_type opp = idle_resource)
              (identifyOptimizationOpportunities [] [r]) = [opp] \<and>
        opp_priority opp = PriorityHigh \<and> potentialSavings opp = cost r)"
proof (intro conjI)
  show "generateIdleResourceRecommendations (before @ r # after) =
       generateIdleResourceRecommendations before @ generateIdleResourceRecommendations [r] @
       generateIdleResourceRecommendations after"
    by (rule generateIdleResourceRecommendations_split)
  show "mset (identifyOptimizationOpportunities svcs (before @ r # after)) =
       mset (identifyOptimizationOpportunities svcs (before @ after)) +
       mset (identifyOptimizationOpportunities [] [r])"
    by (rule identifyOptimizationOpportunities_split)
  show "\<exists>x. generateIdleResourceRecommendations [r] = [x] \<and>
        rec_category x = idle_resources \<and> rec_priority x = PriorityHigh \<and>
        savingsPercentage x = 100 \<and>
        estimatedSavings x = Fin (round2 (cost r)) \<and>
        (\<forall>k. cost r = real_of_int k / 100 \<longrightarrow> estimatedSavings x = Fin (cost r))"
  proof -
    obtain x where x: "generateIdleResourceRecommendations [r] = [x]"
      and fields: "rec_category x = idle_resources" "rec_priority x = PriorityHigh"
        "savingsPercentage x = 100" "estimatedSavings x = Fin (round2 (cost r))"
      using assms
      by (simp add: generateIdleResourceRecommendations_single idleStep_def Let_def)
    have "estimatedSavings x = Fin (cost r)" if "cost r = real_of_int k / 100" for k
      using fields(4) round2_cents [of k] that by simp
    then show ?thesis using x fields by blast
  qed
  show "\<exists>opp. filter (\<lambda>opp. opp_type opp = idle_resource)
              (identifyOptimizationOpportunities [] [r]) = [opp] \<and>
        opp_priority opp = PriorityHigh \<and> potentialSavings opp = cost r"
    using assms
    by (auto simp: identifyOptimizationOpportunities_single resourceStep_def Let_def)
qed

theorem idle_rules_witness:
  "res_utilization (spec_resource 1 1 348) = Some \<lparr>cpu = Some 1, memory = Some 1\<rparr> \<and>
   map estimatedSavings (generateIdleResourceRecommendations [spec_resource 1 1 348]) = [Fin 348] \<and>
   map rec_priority (generateIdleResourceRecommendations [spec_resource 1 1 348]) = [PriorityHigh] \<and>
   map potentialSavings (filter (\<lambda>opp. opp_type opp = idle_resource)
     (identifyOptimizationOpportunities [] [spec_resource 1 1 348])) = [348]"
proof -
  have u: "res_utilization (spec_resource 1 1 348) = Some \<lparr>cpu = Some 1, memory = Some 1\<rparr>"
    by (simp add: spec_resource_def)
  have c: "or_zero (cpu \<lparr>cpu = Some 1, memory = Some 1\<rparr>) < 5"
    and m: "or_zero (memory \<lparr>cpu = Some 1, memory = Some 1\<rparr>) < 5"
    by (simp_all add: or_zero_def)
  have k: "cost (spec_resource 1 1 348) = real_of_int 34800 / 100"
    by (simp add: spec_resource_def)
  have cost: "cost (spec_resource 1 1 348) = 348"
    by (simp add: spec_resource_def)
  note rules = idle_rules [OF u c m, of "[]" "[]" "[]"]
  from rules obtain x where x: "generateIdleResourceRecommendations [spec_resource 1 1 348] = [x]"
    and px: "rec_priority x = PriorityHigh"
    and sx: "\<forall>k. cost (spec_resource 1 1 348) = real_of_int k / 100 \<longrightarrow>
               estimatedSavings x = Fin (cost (spec_resource 1 1 348))"
    by blast
  from rules obtain opp where
    opp: "filter (\<lambda>opp. opp_type opp = idle_resource)
            (identifyOptimizationOpportunities [] [spec_resource 1 1 348]) = [opp]"
    and so: "potentialSavings opp = cost (spec_resource 1 1 348)"
    by blast
  have "estimatedSavings x = Fin 348"
    using sx k cost by metis
  then show ?thesis
    using u x px opp so cost by simp
qed

text \<open>
  An idle resource of cost 10.004 gets estimated savings of 10, not of its full cost.
\<close>

theorem idle_savings_counterexample:
  "map estimatedSavings (generateIdleResourceRecommendations [spec_resource 1 1 10.004]) = [Fin 10] \<and>
   Fin 10 \<noteq> Fin (cost (spec_resource 1 1 10.004))"
proof -
  have "round2 10.004 = 10"
    using round2_eq [of "10.004" 1000] by simp
  then show ?thesis
    by (simp add: generateIdleResourceRecommendations_def idleStep_def Let_def
        spec_resource_def or_zero_def)
qed

section \<open>Properties of the trend analysis\<close>


















end
